theory Spec2Isabelle
  imports Complex_Main "HOL-Library.Signed_Division" "HOL-Library.Word"
begin

section \<open>The C++ arithmetic the sizing snippets use\<close>

text \<open>
  The snippets compute with C++ \<^verbatim>\<open>int\<close>, taken as 32 bits wide (as on every platform
  the toolkit supports). Values are modelled as mathematical integers together with the
  range check of the type. Signed overflow and an out-of-range conversion from
  \<^verbatim>\<open>double\<close> are undefined behaviour in C++: the model does not pick a value for them
  but reports them as a fault, so a result \<open>Inr v\<close> is a value the language defines.
\<close>

definition INT_MAX :: int where
  "INT_MAX = 2147483647"

definition INT_MIN :: int where
  "INT_MIN = - 2147483648"

definition int_in_range :: "int \<Rightarrow> bool" where
  "int_in_range v \<longleftrightarrow> INT_MIN \<le> v \<and> v \<le> INT_MAX"

datatype fault = SignedOverflow | DivisionByZero | ConversionOutOfRange

text \<open>\<^verbatim>\<open>a * b\<close> on \<^verbatim>\<open>int\<close>.\<close>

definition int_mul :: "int \<Rightarrow> int \<Rightarrow> fault + int" where
  "int_mul a b = (if int_in_range (a * b) then Inr (a * b) else Inl SignedOverflow)"

text \<open>\<^verbatim>\<open>a / b\<close> on \<^verbatim>\<open>int\<close>: the quotient is truncated towards zero.\<close>

definition int_div :: "int \<Rightarrow> int \<Rightarrow> fault + int" where
  "int_div a b =
     (if b = 0 then Inl DivisionByZero
      else if int_in_range (a sdiv b) then Inr (a sdiv b)
      else Inl SignedOverflow)"

text \<open>
  Conversion of a \<^verbatim>\<open>double\<close> to \<^verbatim>\<open>int\<close>, as the initialisation
  \<^verbatim>\<open>int inputHeight = em * 1.5;\<close> performs it: the fractional part is discarded
  (truncation towards zero), and the behaviour is undefined when the truncated value
  does not fit.
\<close>

definition truncate_real :: "real \<Rightarrow> int" where
  "truncate_real x = (if 0 \<le> x then \<lfloor>x\<rfloor> else \<lceil>x\<rceil>)"

definition double_to_int :: "real \<Rightarrow> fault + int" where
  "double_to_int x =
     (if int_in_range (truncate_real x) then Inr (truncate_real x)
      else Inl ConversionOutOfRange)"

text \<open>
  \<^verbatim>\<open>em * 1.5\<close> with \<^verbatim>\<open>em\<close> an \<^verbatim>\<open>int\<close>: \<^verbatim>\<open>em\<close> is converted to
  \<^verbatim>\<open>double\<close> and the product is taken there. Both steps are exact for a 32-bit
  \<^verbatim>\<open>em\<close>: the product \<open>3 * em / 2\<close> has at most 33 significant bits and a
  \<^verbatim>\<open>double\<close> holds 53, so the product is the real number itself.
\<close>

definition int_mul_double :: "int \<Rightarrow> real \<Rightarrow> real" where
  "int_mul_double a x = real_of_int a * x"

text \<open>Sequencing of statements: the first fault ends the computation.\<close>

definition and_then :: "fault + 'a \<Rightarrow> ('a \<Rightarrow> fault + 'b) \<Rightarrow> fault + 'b" where
  "and_then r f = (case r of Inl e \<Rightarrow> Inl e | Inr v \<Rightarrow> f v)"

section \<open>Sizes as multiples of the font height\<close>

text \<open>
  Step 2 of the runtime stylesheet snippet:
  \<^verbatim>\<open>
  int paddingVertical   = em / 4;
  int paddingHorizontal = em / 2;
  int minWidth          = em * 5;
  \<close>
\<close>

record em_sizes =
  paddingVertical :: int
  paddingHorizontal :: int
  minWidth :: int

definition em_scaling :: "int \<Rightarrow> fault + em_sizes" where
  "em_scaling em =
     and_then (int_div em 4) (\<lambda>pv.
     and_then (int_div em 2) (\<lambda>ph.
     and_then (int_mul em 5) (\<lambda>mw.
     Inr \<lparr>paddingVertical = pv, paddingHorizontal = ph, minWidth = mw\<rparr>)))"

text \<open>
  The sizes of the complete example (\<^verbatim>\<open>main\<close>):
  \<^verbatim>\<open>
  int smallPadding  = em / 4;
  int mediumPadding = em / 2;
  int largePadding  = em;
  int buttonHeight  = em * 2;
  int inputHeight   = em * 1.5;
  int borderRadius  = em / 4;
  int iconSize      = em;
  \<close>
\<close>

record main_sizes =
  smallPadding :: int
  mediumPadding :: int
  largePadding :: int
  buttonHeight :: int
  inputHeight :: int
  borderRadius :: int
  iconSize :: int

definition main_scaling :: "int \<Rightarrow> fault + main_sizes" where
  "main_scaling em =
     and_then (int_div em 4) (\<lambda>sp.
     and_then (int_div em 2) (\<lambda>mp.
     and_then (int_mul em 2) (\<lambda>bh.
     and_then (double_to_int (int_mul_double em 1.5)) (\<lambda>ih.
     and_then (int_div em 4) (\<lambda>br.
     Inr \<lparr>smallPadding = sp, mediumPadding = mp, largePadding = em,
          buttonHeight = bh, inputHeight = ih, borderRadius = br, iconSize = em\<rparr>)))))"

section \<open>The toolkit's strings, as far as the form uses them\<close>

text \<open>
  A \<^verbatim>\<open>QString\<close> is a sequence of 16-bit code units. The functions below belong to
  the toolkit, not to this repository; they follow the toolkit's documentation.
  A string literal of the source is decoded from UTF-8; for ASCII text every byte is
  one code unit.
\<close>

type_synonym QChar = "16 word"
type_synonym QString = "QChar list"

definition fromAscii :: "string \<Rightarrow> QString" where
  "fromAscii s = map of_char s"

text \<open>
  \<^verbatim>\<open>QChar::isSpace\<close>: the space, the controls U+0009 to U+000D, U+0085, and the
  Unicode separators (categories Zs, Zl and Zp).
\<close>

definition isSpace :: "QChar \<Rightarrow> bool" where
  "isSpace c \<longleftrightarrow>
     c = 0x20 \<or> (0x09 \<le> c \<and> c \<le> 0x0D) \<or> c = 0x85 \<or> c = 0xA0 \<or> c = 0x1680 \<or>
     (0x2000 \<le> c \<and> c \<le> 0x200A) \<or> c = 0x2028 \<or> c = 0x2029 \<or> c = 0x202F \<or>
     c = 0x205F \<or> c = 0x3000"

text \<open>\<^verbatim>\<open>QString::trimmed\<close>: whitespace removed from the start and from the end.\<close>

definition trimmed :: "QString \<Rightarrow> QString" where
  "trimmed s = rev (dropWhile isSpace (rev (dropWhile isSpace s)))"

definition isEmpty :: "QString \<Rightarrow> bool" where
  "isEmpty s \<longleftrightarrow> s = []"

text \<open>
  \<^verbatim>\<open>QString::arg(a1, a2)\<close>, the multi-argument form: the format is split once into
  literal text and place markers (\<^verbatim>\<open>%\<close>, an optional \<^verbatim>\<open>L\<close>, then one or two
  decimal digits, the documented marker numbers being 1 to 99); the distinct marker
  numbers in increasing order are paired with the arguments in order, and every marker
  with an argument is replaced by it in that single pass. A marker without an argument
  stays as written.
\<close>

datatype part = Text_part QChar | Arg_part nat QString

definition digit_of :: "QChar \<Rightarrow> nat option" where
  "digit_of c = (if 0x30 \<le> c \<and> c \<le> 0x39 then Some (unat c - 48) else None)"

text \<open>
  \<open>getEscape cs\<close> reads a marker from the text after a \<^verbatim>\<open>%\<close>: its number and how
  many code units of \<open>cs\<close> it takes.
\<close>

definition getEscape :: "QString \<Rightarrow> (nat \<times> nat) option" where
  "getEscape cs =
     (let l = (case cs of c # _ \<Rightarrow> if c = 0x4C then 1 else 0 | [] \<Rightarrow> 0) in
      case drop l cs of
        [] \<Rightarrow> None
      | c # r \<Rightarrow>
          (case digit_of c of
             None \<Rightarrow> None
           | Some d \<Rightarrow>
               (case r of
                  [] \<Rightarrow> Some (d, Suc l)
                | c2 # _ \<Rightarrow>
                    (case digit_of c2 of
                       Some d2 \<Rightarrow> Some (d * 10 + d2, Suc (Suc l))
                     | None \<Rightarrow> Some (d, Suc l)))))"

fun parseMultiArgFormatString :: "QString \<Rightarrow> part list" where
  "parseMultiArgFormatString [] = []"
| "parseMultiArgFormatString (c # cs) =
     (if c = 0x25 \<and> cs \<noteq> [] then
        (case getEscape cs of
           Some (n, k) \<Rightarrow> Arg_part n (c # take k cs) # parseMultiArgFormatString (drop k cs)
         | None \<Rightarrow> Text_part c # parseMultiArgFormatString cs)
      else Text_part c # parseMultiArgFormatString cs)"

definition placeholderNumbers :: "part list \<Rightarrow> nat list" where
  "placeholderNumbers ps =
     sort (remdups (concat (map (\<lambda>p. case p of Text_part _ \<Rightarrow> [] | Arg_part n _ \<Rightarrow> [n]) ps)))"

definition multiArg :: "QString \<Rightarrow> QString list \<Rightarrow> QString" where
  "multiArg fmt args =
     (let ps = parseMultiArgFormatString fmt;
          subst = map_of (zip (placeholderNumbers ps) args)
      in concat (map (\<lambda>p. case p of
                            Text_part c \<Rightarrow> [c]
                          | Arg_part n marker \<Rightarrow>
                              (case subst n of Some a \<Rightarrow> a | None \<Rightarrow> marker)) ps))"

section \<open>The form window\<close>

text \<open>
  \<^verbatim>\<open>MainWindow\<close> owns two line edits and a status label. Of each widget the model
  keeps what the window's code reads or writes: the text, and the alignment the
  constructor gives the label.
\<close>

datatype Alignment = AlignLeading | AlignCenter

record QLineEdit =
  le_text :: QString

record QLabel =
  lb_text :: QString
  lb_alignment :: Alignment

record MainWindow =
  windowTitle :: QString
  windowWidth :: int
  windowHeight :: int
  m_nameEdit :: QLineEdit
  m_emailEdit :: QLineEdit
  m_statusLabel :: QLabel

text \<open>
  \<^verbatim>\<open>QLineEdit::clear\<close> and \<^verbatim>\<open>QLabel::clear\<close> empty the widget's content;
  \<^verbatim>\<open>QLabel::setText\<close> replaces the label's text.
\<close>

definition QLineEdit_clear :: "QLineEdit \<Rightarrow> QLineEdit" where
  "QLineEdit_clear e = e\<lparr>le_text := []\<rparr>"

definition QLabel_clear :: "QLabel \<Rightarrow> QLabel" where
  "QLabel_clear l = l\<lparr>lb_text := []\<rparr>"

definition QLabel_setText :: "QLabel \<Rightarrow> QString \<Rightarrow> QLabel" where
  "QLabel_setText l t = l\<lparr>lb_text := t\<rparr>"

text \<open>
  The constructor: title, size, two empty line edits and an empty, centred label.
\<close>

definition MainWindow_new :: MainWindow where
  "MainWindow_new =
     \<lparr>windowTitle = fromAscii ''Qt Layout Demo'', windowWidth = 400, windowHeight = 200,
      m_nameEdit = \<lparr>le_text = []\<rparr>, m_emailEdit = \<lparr>le_text = []\<rparr>,
      m_statusLabel = \<lparr>lb_text = [], lb_alignment = AlignCenter\<rparr>\<rparr>"

text \<open>
  The slot connected to the Clear button:
  \<^verbatim>\<open>
  connect(clearBtn, &QPushButton::clicked, this, [this]() {
      m_nameEdit->clear();
      m_emailEdit->clear();
      m_statusLabel->clear();
  });
  \<close>
\<close>

definition clearClicked :: "MainWindow \<Rightarrow> MainWindow" where
  "clearClicked w =
     (let w1 = w\<lparr>m_nameEdit := QLineEdit_clear (m_nameEdit w)\<rparr>;
          w2 = w1\<lparr>m_emailEdit := QLineEdit_clear (m_emailEdit w1)\<rparr>
      in w2\<lparr>m_statusLabel := QLabel_clear (m_statusLabel w2)\<rparr>)"

text \<open>
  The warning shown for an incomplete form: the warning sign U+26A0 followed by
  \<^verbatim>\<open> Please fill in all fields.\<close> (written \<^verbatim>\<open><warning>\<close> in the listing below).
\<close>

definition warningText :: QString where
  "warningText = 0x26A0 # fromAscii '' Please fill in all fields.''"

text \<open>
  \<^verbatim>\<open>
  void MainWindow::onSubmit() {
      QString name  = m_nameEdit->text().trimmed();
      QString email = m_emailEdit->text().trimmed();
      if (name.isEmpty() || email.isEmpty()) {
          m_statusLabel->setText(<warning>);
      } else {
          m_statusLabel->setText(QString("Submitted: %1 <%2>").arg(name, email));
      }
  }
  \<close>
\<close>

definition onSubmit :: "MainWindow \<Rightarrow> MainWindow" where
  "onSubmit w =
     (let name = trimmed (le_text (m_nameEdit w));
          email = trimmed (le_text (m_emailEdit w))
      in if isEmpty name \<or> isEmpty email
         then w\<lparr>m_statusLabel := QLabel_setText (m_statusLabel w) warningText\<rparr>
         else w\<lparr>m_statusLabel :=
                  QLabel_setText (m_statusLabel w)
                    (multiArg (fromAscii ''Submitted: %1 <%2>'') [name, email])\<rparr>)"

section \<open>Facts about the arithmetic\<close>

text \<open>Truncating division by a positive divisor, by the sign of the dividend.\<close>

lemma sdiv_nonneg: "0 \<le> a \<Longrightarrow> 0 < b \<Longrightarrow> (a::int) sdiv b = a div b"
  by (cases "a = 0") (simp_all add: signed_divide_int_def)

lemma sdiv_nonpos: "a \<le> 0 \<Longrightarrow> 0 < b \<Longrightarrow> (a::int) sdiv b = - ((- a) div b)"
  by (cases "a = 0") (simp_all add: signed_divide_int_def)

lemma sdiv_4_between: "min a 0 \<le> (a::int) sdiv 4 \<and> a sdiv 4 \<le> max a 0"
proof (cases "0 \<le> a")
  case True
  then have "a sdiv 4 = a div 4" by (simp add: sdiv_nonneg)
  moreover have "0 \<le> a div 4 \<and> a div 4 \<le> a" using True by arith
  ultimately show ?thesis using True by simp
next
  case False
  then have "a sdiv 4 = - ((- a) div 4)" by (simp add: sdiv_nonpos)
  moreover have "a \<le> - ((- a) div 4) \<and> - ((- a) div 4) \<le> 0" using False by arith
  ultimately show ?thesis using False by simp
qed

lemma sdiv_2_between: "min a 0 \<le> (a::int) sdiv 2 \<and> a sdiv 2 \<le> max a 0"
proof (cases "0 \<le> a")
  case True
  then have "a sdiv 2 = a div 2" by (simp add: sdiv_nonneg)
  moreover have "0 \<le> a div 2 \<and> a div 2 \<le> a" using True by arith
  ultimately show ?thesis using True by simp
next
  case False
  then have "a sdiv 2 = - ((- a) div 2)" by (simp add: sdiv_nonpos)
  moreover have "a \<le> - ((- a) div 2) \<and> - ((- a) div 2) \<le> 0" using False by arith
  ultimately show ?thesis using False by simp
qed

lemma in_range_between:
  "min a 0 \<le> x \<and> x \<le> max a 0 \<Longrightarrow> INT_MIN \<le> a \<Longrightarrow> a \<le> INT_MAX \<Longrightarrow> int_in_range x"
  unfolding int_in_range_def INT_MIN_def INT_MAX_def by arith

text \<open>Dividing an \<^verbatim>\<open>int\<close> by 4 or by 2 never leaves the range.\<close>

lemma int_div_4:
  assumes "INT_MIN \<le> a" "a \<le> INT_MAX"
  shows "int_div a 4 = Inr (a sdiv 4)"
proof -
  have "int_in_range (a sdiv 4)"
    using sdiv_4_between assms by (rule in_range_between)
  then show ?thesis by (simp add: int_div_def)
qed

lemma int_div_2:
  assumes "INT_MIN \<le> a" "a \<le> INT_MAX"
  shows "int_div a 2 = Inr (a sdiv 2)"
proof -
  have "int_in_range (a sdiv 2)"
    using sdiv_2_between assms by (rule in_range_between)
  then show ?thesis by (simp add: int_div_def)
qed

text \<open>The ratios as real products.\<close>

lemma floor_quarter: "\<lfloor>real_of_int em * (1 / 4)\<rfloor> = em div 4"
proof -
  have "real_of_int em * (1 / 4) = real_of_int em / real_of_int 4" by simp
  then show ?thesis by (simp only: floor_divide_of_int_eq)
qed

lemma floor_half: "\<lfloor>real_of_int em * (1 / 2)\<rfloor> = em div 2"
proof -
  have "real_of_int em * (1 / 2) = real_of_int em / real_of_int 2" by simp
  then show ?thesis by (simp only: floor_divide_of_int_eq)
qed

lemma floor_three_halves: "\<lfloor>real_of_int em * 1.5\<rfloor> = (3 * em) div 2"
proof -
  have "real_of_int em * 1.5 = real_of_int (3 * em) / real_of_int 2" by simp
  then show ?thesis by (simp only: floor_divide_of_int_eq)
qed

lemma ceiling_three_halves: "\<lceil>real_of_int em * 1.5\<rceil> = - ((- (3 * em)) div 2)"
proof -
  have "real_of_int em * 1.5 = - (real_of_int (- (3 * em)) / real_of_int 2)" by simp
  then show ?thesis by (simp only: ceiling_def minus_minus floor_divide_of_int_eq)
qed

lemma truncate_three_halves: "truncate_real (int_mul_double em 1.5) = (3 * em) sdiv 2"
proof (cases "0 \<le> em")
  case True
  then have "0 \<le> real_of_int em * 1.5" by simp
  then have "truncate_real (int_mul_double em 1.5) = \<lfloor>real_of_int em * 1.5\<rfloor>"
    by (simp only: truncate_real_def int_mul_double_def if_True)
  also have "\<dots> = (3 * em) div 2" by (rule floor_three_halves)
  also have "\<dots> = (3 * em) sdiv 2" using True by (simp add: sdiv_nonneg)
  finally show ?thesis .
next
  case False
  then have "\<not> 0 \<le> real_of_int em * 1.5" by simp
  then have "truncate_real (int_mul_double em 1.5) = \<lceil>real_of_int em * 1.5\<rceil>"
    by (simp only: truncate_real_def int_mul_double_def if_False)
  also have "\<dots> = - ((- (3 * em)) div 2)" by (rule ceiling_three_halves)
  also have "\<dots> = (3 * em) sdiv 2" using False by (simp add: sdiv_nonpos)
  finally show ?thesis .
qed

text \<open>Closed forms of the two computations on the bases where nothing overflows.\<close>

lemma main_scaling_closed:
  assumes "- 1073741824 \<le> em" "em \<le> 1073741823"
  shows "main_scaling em =
    Inr \<lparr>smallPadding = em sdiv 4, mediumPadding = em sdiv 2, largePadding = em,
         buttonHeight = em * 2, inputHeight = (3 * em) sdiv 2, borderRadius = em sdiv 4,
         iconSize = em\<rparr>"
proof -
  have r: "INT_MIN \<le> em" "em \<le> INT_MAX" using assms by (simp_all add: INT_MIN_def INT_MAX_def)
  have m: "int_mul em 2 = Inr (em * 2)"
    using assms by (simp add: int_mul_def int_in_range_def INT_MIN_def INT_MAX_def)
  have "int_in_range ((3 * em) sdiv 2)"
  proof (cases "0 \<le> em")
    case True
    then have eq: "(3 * em) sdiv 2 = (3 * em) div 2" by (simp add: sdiv_nonneg)
    have "- 2147483648 \<le> (3 * em) div 2 \<and> (3 * em) div 2 \<le> 2147483647"
      using True assms by arith
    then show ?thesis unfolding int_in_range_def INT_MIN_def INT_MAX_def eq .
  next
    case False
    then have eq: "(3 * em) sdiv 2 = - ((- (3 * em)) div 2)" by (simp add: sdiv_nonpos)
    have "- 2147483648 \<le> - ((- (3 * em)) div 2) \<and> - ((- (3 * em)) div 2) \<le> 2147483647"
      using False assms by arith
    then show ?thesis unfolding int_in_range_def INT_MIN_def INT_MAX_def eq .
  qed
  then have d: "double_to_int (int_mul_double em 1.5) = Inr ((3 * em) sdiv 2)"
    unfolding double_to_int_def truncate_three_halves by simp
  show ?thesis
    unfolding main_scaling_def int_div_4 [OF r] int_div_2 [OF r] m d and_then_def
    by simp
qed

lemma em_scaling_closed:
  assumes "- 429496729 \<le> em" "em \<le> 429496729"
  shows "em_scaling em =
    Inr \<lparr>paddingVertical = em sdiv 4, paddingHorizontal = em sdiv 2, minWidth = em * 5\<rparr>"
proof -
  have r: "INT_MIN \<le> em" "em \<le> INT_MAX" using assms by (simp_all add: INT_MIN_def INT_MAX_def)
  have m: "int_mul em 5 = Inr (em * 5)"
    using assms by (simp add: int_mul_def int_in_range_def INT_MIN_def INT_MAX_def)
  show ?thesis
    by (simp add: em_scaling_def and_then_def int_div_4 [OF r] int_div_2 [OF r] m)
qed


lemma main_scaling_nonneg:
  assumes "0 \<le> em" "em \<le> 1073741823"
  shows "main_scaling em =
    Inr \<lparr>smallPadding = em div 4, mediumPadding = em div 2, largePadding = em,
         buttonHeight = em * 2, inputHeight = (3 * em) div 2, borderRadius = em div 4,
         iconSize = em\<rparr>"
proof -
  have "- 1073741824 \<le> em" using assms by simp
  then show ?thesis using assms by (simp add: main_scaling_closed sdiv_nonneg)
qed

lemma em_scaling_nonneg:
  assumes "0 \<le> em" "em \<le> 429496729"
  shows "em_scaling em =
    Inr \<lparr>paddingVertical = em div 4, paddingHorizontal = em div 2, minWidth = em * 5\<rparr>"
proof -
  have "- 429496729 \<le> em" using assms by simp
  then show ?thesis using assms by (simp add: em_scaling_closed sdiv_nonneg)
qed

lemma floor_times_numeral: "\<lfloor>real_of_int em * numeral n\<rfloor> = em * numeral n"
proof -
  have "real_of_int em * numeral n = real_of_int (em * numeral n)" by simp
  then show ?thesis by (simp only: floor_of_int)
qed

text \<open>The equations that evaluate the computations on a concrete base.\<close>

lemmas eval_defs = em_scaling_def main_scaling_def and_then_def int_div_def int_mul_def
  int_in_range_def INT_MAX_def INT_MIN_def double_to_int_def truncate_real_def
  int_mul_double_def signed_divide_int_def

section \<open>The sizes against the stated ratios\<close>

text \<open>
  At base 3 the quarter is \<open>3 / 4\<close> truncated, which is 0, and the half is \<open>3 / 2\<close>
  truncated, which is 1; rounding to the nearest integer would give 1 and 2. At the
  positive bases 1073741824 and 429496730 the products \<^verbatim>\<open>em * 2\<close> and
  \<^verbatim>\<open>em * 5\<close> do not fit in an \<^verbatim>\<open>int\<close>.
\<close>

theorem scaling_not_rounded_at_3:
  "main_scaling 3 =
     Inr \<lparr>smallPadding = 0, mediumPadding = 1, largePadding = 3, buttonHeight = 6,
          inputHeight = 4, borderRadius = 0, iconSize = 3\<rparr> \<and>
   em_scaling 3 = Inr \<lparr>paddingVertical = 0, paddingHorizontal = 1, minWidth = 15\<rparr> \<and>
   round (real_of_int 3 * (1 / 4)) = (1 :: int) \<and>
   round (real_of_int 3 * (1 / 2)) = (2 :: int) \<and>
   main_scaling 1073741824 = Inl SignedOverflow \<and>
   em_scaling 429496730 = Inl SignedOverflow"
  by (simp add: eval_defs round_def)

text \<open>
  C1, as the code has it: for every positive base each size is the base times its ratio
  (a quarter, a half, 2, 1.5, 5; the large padding and the icon size are the base itself)
  with the fraction discarded, that is, rounded down and not to the nearest integer, and
  it is not negative. This holds for the bases whose products fit in an \<^verbatim>\<open>int\<close>:
  up to 429496729 for the snippet that multiplies by 5, up to 1073741823 for
  \<^verbatim>\<open>main\<close>, which doubles.
\<close>

theorem scaling_truncates:
  assumes "0 < em"
  shows "(em \<le> 429496729 \<longrightarrow>
            em_scaling em =
              Inr \<lparr>paddingVertical = \<lfloor>real_of_int em * (1 / 4)\<rfloor>,
                   paddingHorizontal = \<lfloor>real_of_int em * (1 / 2)\<rfloor>,
                   minWidth = \<lfloor>real_of_int em * 5\<rfloor>\<rparr>) \<and>
         (em \<le> 1073741823 \<longrightarrow>
            main_scaling em =
              Inr \<lparr>smallPadding = \<lfloor>real_of_int em * (1 / 4)\<rfloor>,
                   mediumPadding = \<lfloor>real_of_int em * (1 / 2)\<rfloor>,
                   largePadding = em,
                   buttonHeight = \<lfloor>real_of_int em * 2\<rfloor>,
                   inputHeight = \<lfloor>real_of_int em * 1.5\<rfloor>,
                   borderRadius = \<lfloor>real_of_int em * (1 / 4)\<rfloor>,
                   iconSize = em\<rparr>) \<and>
         0 \<le> \<lfloor>real_of_int em * (1 / 4)\<rfloor> \<and> 0 \<le> \<lfloor>real_of_int em * (1 / 2)\<rfloor> \<and>
         0 \<le> \<lfloor>real_of_int em * 2\<rfloor> \<and> 0 \<le> \<lfloor>real_of_int em * 1.5\<rfloor> \<and>
         0 \<le> \<lfloor>real_of_int em * 5\<rfloor>"
proof -
  have nn: "0 \<le> em" using assms by simp
  have e: "em \<le> 429496729 \<Longrightarrow> em_scaling em =
      Inr \<lparr>paddingVertical = \<lfloor>real_of_int em * (1 / 4)\<rfloor>,
           paddingHorizontal = \<lfloor>real_of_int em * (1 / 2)\<rfloor>,
           minWidth = \<lfloor>real_of_int em * 5\<rfloor>\<rparr>"
    unfolding floor_quarter floor_half floor_times_numeral
    using nn by (rule em_scaling_nonneg)
  have m: "em \<le> 1073741823 \<Longrightarrow> main_scaling em =
      Inr \<lparr>smallPadding = \<lfloor>real_of_int em * (1 / 4)\<rfloor>,
           mediumPadding = \<lfloor>real_of_int em * (1 / 2)\<rfloor>,
           largePadding = em,
           buttonHeight = \<lfloor>real_of_int em * 2\<rfloor>,
           inputHeight = \<lfloor>real_of_int em * 1.5\<rfloor>,
           borderRadius = \<lfloor>real_of_int em * (1 / 4)\<rfloor>,
           iconSize = em\<rparr>"
    unfolding floor_quarter floor_half floor_times_numeral floor_three_halves
    using nn by (rule main_scaling_nonneg)
  have p: "0 \<le> \<lfloor>real_of_int em * (1 / 4)\<rfloor>" "0 \<le> \<lfloor>real_of_int em * (1 / 2)\<rfloor>"
    "0 \<le> \<lfloor>real_of_int em * 2\<rfloor>" "0 \<le> \<lfloor>real_of_int em * 1.5\<rfloor>"
    "0 \<le> \<lfloor>real_of_int em * 5\<rfloor>"
    using nn by simp_all
  from e m p show ?thesis by blast
qed

theorem scaling_truncates_witness:
  "(0::int) < 7 \<and> (7::int) \<le> 429496729 \<and>
   em_scaling 7 = Inr \<lparr>paddingVertical = 1, paddingHorizontal = 3, minWidth = 35\<rparr> \<and>
   main_scaling 7 =
     Inr \<lparr>smallPadding = 1, mediumPadding = 3, largePadding = 7, buttonHeight = 14,
          inputHeight = 10, borderRadius = 1, iconSize = 7\<rparr>"
  using scaling_truncates [of 7] by simp

text \<open>
  At base 0 every size is 0, and at base -7 the sizes are negative: the code computes a
  complete set of sizes where the claim asks for a failure.
\<close>

theorem scaling_accepts_zero_and_negative:
  "main_scaling 0 =
     Inr \<lparr>smallPadding = 0, mediumPadding = 0, largePadding = 0, buttonHeight = 0,
          inputHeight = 0, borderRadius = 0, iconSize = 0\<rparr> \<and>
   em_scaling 0 = Inr \<lparr>paddingVertical = 0, paddingHorizontal = 0, minWidth = 0\<rparr> \<and>
   main_scaling (- 7) =
     Inr \<lparr>smallPadding = - 1, mediumPadding = - 3, largePadding = - 7, buttonHeight = - 14,
          inputHeight = - 10, borderRadius = - 1, iconSize = - 7\<rparr> \<and>
   em_scaling (- 7) = Inr \<lparr>paddingVertical = - 1, paddingHorizontal = - 3, minWidth = - 35\<rparr>"
  by (simp add: eval_defs)

lemma sdiv_4_nonpos: "(a::int) \<le> 0 \<Longrightarrow> a sdiv 4 \<le> 0"
  using sdiv_4_between [of a] by simp

lemma sdiv_2_nonpos: "(a::int) \<le> 0 \<Longrightarrow> a sdiv 2 \<le> 0"
  using sdiv_2_between [of a] by simp

text \<open>
  C2, as the code has it: the snippets have no check of the base and no
  InvalidMeasurement failure. For every base, zero and negative ones included, whose
  products fit in an \<^verbatim>\<open>int\<close> (from -429496729 to 429496729 for the snippet that
  multiplies by 5, from -1073741824 to 1073741823 for \<^verbatim>\<open>main\<close>) the complete set of
  sizes is computed. For a base that is zero or negative no size is positive, and for
  base 0 every size is 0. In particular no positive base in these ranges fails.
\<close>

theorem scaling_has_no_guard:
  "(- 429496729 \<le> em \<and> em \<le> 429496729 \<longrightarrow>
      (\<exists>d. em_scaling em = Inr d \<and>
           (em \<le> 0 \<longrightarrow> paddingVertical d \<le> 0 \<and> paddingHorizontal d \<le> 0 \<and> minWidth d \<le> 0) \<and>
           (em = 0 \<longrightarrow> paddingVertical d = 0 \<and> paddingHorizontal d = 0 \<and> minWidth d = 0))) \<and>
   (- 1073741824 \<le> em \<and> em \<le> 1073741823 \<longrightarrow>
      (\<exists>s. main_scaling em = Inr s \<and>
           (em \<le> 0 \<longrightarrow> smallPadding s \<le> 0 \<and> mediumPadding s \<le> 0 \<and> largePadding s \<le> 0 \<and>
              buttonHeight s \<le> 0 \<and> inputHeight s \<le> 0 \<and> borderRadius s \<le> 0 \<and>
              iconSize s \<le> 0) \<and>
           (em = 0 \<longrightarrow> smallPadding s = 0 \<and> mediumPadding s = 0 \<and> largePadding s = 0 \<and>
              buttonHeight s = 0 \<and> inputHeight s = 0 \<and> borderRadius s = 0 \<and>
              iconSize s = 0)))"
proof (intro conjI impI)
  assume r: "- 429496729 \<le> em \<and> em \<le> 429496729"
  then have "em_scaling em =
      Inr \<lparr>paddingVertical = em sdiv 4, paddingHorizontal = em sdiv 2, minWidth = em * 5\<rparr>"
    by (simp add: em_scaling_closed)
  then show "\<exists>d. em_scaling em = Inr d \<and>
      (em \<le> 0 \<longrightarrow> paddingVertical d \<le> 0 \<and> paddingHorizontal d \<le> 0 \<and> minWidth d \<le> 0) \<and>
      (em = 0 \<longrightarrow> paddingVertical d = 0 \<and> paddingHorizontal d = 0 \<and> minWidth d = 0)"
    by (simp add: sdiv_4_nonpos sdiv_2_nonpos)
next
  assume r: "- 1073741824 \<le> em \<and> em \<le> 1073741823"
  then have "main_scaling em =
      Inr \<lparr>smallPadding = em sdiv 4, mediumPadding = em sdiv 2, largePadding = em,
           buttonHeight = em * 2, inputHeight = (3 * em) sdiv 2, borderRadius = em sdiv 4,
           iconSize = em\<rparr>"
    by (simp add: main_scaling_closed)
  moreover have "em \<le> 0 \<Longrightarrow> (3 * em) sdiv 2 \<le> 0"
    by (rule sdiv_2_nonpos) simp
  ultimately show "\<exists>s. main_scaling em = Inr s \<and>
      (em \<le> 0 \<longrightarrow> smallPadding s \<le> 0 \<and> mediumPadding s \<le> 0 \<and> largePadding s \<le> 0 \<and>
         buttonHeight s \<le> 0 \<and> inputHeight s \<le> 0 \<and> borderRadius s \<le> 0 \<and> iconSize s \<le> 0) \<and>
      (em = 0 \<longrightarrow> smallPadding s = 0 \<and> mediumPadding s = 0 \<and> largePadding s = 0 \<and>
         buttonHeight s = 0 \<and> inputHeight s = 0 \<and> borderRadius s = 0 \<and> iconSize s = 0)"
    by (simp add: sdiv_4_nonpos sdiv_2_nonpos)
qed

theorem scaling_has_no_guard_witness:
  "- 429496729 \<le> (- 12 :: int) \<and> (- 12 :: int) \<le> 429496729 \<and>
   (\<exists>d. em_scaling (- 12) = Inr d \<and>
        paddingVertical d \<le> 0 \<and> paddingHorizontal d \<le> 0 \<and> minWidth d \<le> 0) \<and>
   (\<exists>s. main_scaling (- 12) = Inr s \<and> smallPadding s \<le> 0 \<and> mediumPadding s \<le> 0 \<and>
        largePadding s \<le> 0 \<and> buttonHeight s \<le> 0 \<and> inputHeight s \<le> 0 \<and>
        borderRadius s \<le> 0 \<and> iconSize s \<le> 0) \<and>
   (\<exists>d. em_scaling 0 = Inr d \<and>
        paddingVertical d = 0 \<and> paddingHorizontal d = 0 \<and> minWidth d = 0) \<and>
   (\<exists>s. main_scaling 0 = Inr s \<and> smallPadding s = 0 \<and> mediumPadding s = 0 \<and>
        largePadding s = 0 \<and> buttonHeight s = 0 \<and> inputHeight s = 0 \<and>
        borderRadius s = 0 \<and> iconSize s = 0)"
proof -
  have neg: "(\<exists>d. em_scaling (- 12) = Inr d \<and>
        paddingVertical d \<le> 0 \<and> paddingHorizontal d \<le> 0 \<and> minWidth d \<le> 0) \<and>
     (\<exists>s. main_scaling (- 12) = Inr s \<and> smallPadding s \<le> 0 \<and> mediumPadding s \<le> 0 \<and>
        largePadding s \<le> 0 \<and> buttonHeight s \<le> 0 \<and> inputHeight s \<le> 0 \<and>
        borderRadius s \<le> 0 \<and> iconSize s \<le> 0)"
    using scaling_has_no_guard [of "- 12"] by simp
  have zero: "(\<exists>d. em_scaling 0 = Inr d \<and>
        paddingVertical d = 0 \<and> paddingHorizontal d = 0 \<and> minWidth d = 0) \<and>
     (\<exists>s. main_scaling 0 = Inr s \<and> smallPadding s = 0 \<and> mediumPadding s = 0 \<and>
        largePadding s = 0 \<and> buttonHeight s = 0 \<and> inputHeight s = 0 \<and>
        borderRadius s = 0 \<and> iconSize s = 0)"
    using scaling_has_no_guard [of 0] by simp blast
  from neg zero show ?thesis by simp
qed

section \<open>Order and sign of the sizes\<close>

text \<open>
  Base 1 is below base 1073741824, but at the larger base the doubling in
  \<^verbatim>\<open>main\<close> overflows, and so does the multiplication by 5 at 429496730: there are
  no defined sizes to compare with those of base 1.
\<close>

theorem scaling_overflow_breaks_order:
  "(1::int) < 1073741824 \<and>
   main_scaling 1 =
     Inr \<lparr>smallPadding = 0, mediumPadding = 0, largePadding = 1, buttonHeight = 2,
          inputHeight = 1, borderRadius = 0, iconSize = 1\<rparr> \<and>
   main_scaling 1073741824 = Inl SignedOverflow \<and>
   em_scaling 1 = Inr \<lparr>paddingVertical = 0, paddingHorizontal = 0, minWidth = 5\<rparr> \<and>
   em_scaling 429496730 = Inl SignedOverflow"
  by (simp add: eval_defs)

lemma mono_facts:
  assumes "(b1::int) < b2"
  shows "b1 div 4 \<le> b2 div 4" "b1 div 2 \<le> b2 div 2" "(3 * b1) div 2 \<le> (3 * b2) div 2"
proof -
  have le: "b1 \<le> b2" "3 * b1 \<le> 3 * b2" using assms by simp_all
  show "b1 div 4 \<le> b2 div 4" using le(1) by (rule zdiv_mono1) simp
  show "b1 div 2 \<le> b2 div 2" using le(1) by (rule zdiv_mono1) simp
  show "(3 * b1) div 2 \<le> (3 * b2) div 2" using le(2) by (rule zdiv_mono1) simp
qed

text \<open>
  C3, as the code has it: for positive bases \<open>b1 < b2\<close> every size computed from
  \<open>b1\<close> is at most the corresponding size computed from \<open>b2\<close>, as long as the
  products of \<open>b2\<close> fit in an \<^verbatim>\<open>int\<close> (\<open>b2\<close> up to 429496729 for the snippet
  that multiplies by 5, up to 1073741823 for \<^verbatim>\<open>main\<close>).
\<close>

theorem scaling_monotone:
  assumes "0 < b1" "b1 < b2"
  shows "(b2 \<le> 429496729 \<longrightarrow>
            (\<exists>d1 d2. em_scaling b1 = Inr d1 \<and> em_scaling b2 = Inr d2 \<and>
               paddingVertical d1 \<le> paddingVertical d2 \<and>
               paddingHorizontal d1 \<le> paddingHorizontal d2 \<and>
               minWidth d1 \<le> minWidth d2)) \<and>
         (b2 \<le> 1073741823 \<longrightarrow>
            (\<exists>s1 s2. main_scaling b1 = Inr s1 \<and> main_scaling b2 = Inr s2 \<and>
               smallPadding s1 \<le> smallPadding s2 \<and>
               mediumPadding s1 \<le> mediumPadding s2 \<and>
               largePadding s1 \<le> largePadding s2 \<and>
               buttonHeight s1 \<le> buttonHeight s2 \<and>
               inputHeight s1 \<le> inputHeight s2 \<and>
               borderRadius s1 \<le> borderRadius s2 \<and>
               iconSize s1 \<le> iconSize s2))"
proof (intro conjI impI)
  assume r: "b2 \<le> 429496729"
  let ?d1 = "\<lparr>paddingVertical = b1 div 4, paddingHorizontal = b1 div 2, minWidth = b1 * 5\<rparr>"
  let ?d2 = "\<lparr>paddingVertical = b2 div 4, paddingHorizontal = b2 div 2, minWidth = b2 * 5\<rparr>"
  have e1: "em_scaling b1 = Inr ?d1"
    using assms r by (intro em_scaling_nonneg) simp_all
  have e2: "em_scaling b2 = Inr ?d2"
    using assms r by (intro em_scaling_nonneg) simp_all
  have "paddingVertical ?d1 \<le> paddingVertical ?d2 \<and>
      paddingHorizontal ?d1 \<le> paddingHorizontal ?d2 \<and> minWidth ?d1 \<le> minWidth ?d2"
    unfolding em_sizes.simps
    using assms mono_facts [of b1 b2] by (intro conjI) (assumption, assumption, simp)
  with e1 e2 show "\<exists>d1 d2. em_scaling b1 = Inr d1 \<and> em_scaling b2 = Inr d2 \<and>
      paddingVertical d1 \<le> paddingVertical d2 \<and> paddingHorizontal d1 \<le> paddingHorizontal d2 \<and>
      minWidth d1 \<le> minWidth d2"
    by blast
next
  assume r: "b2 \<le> 1073741823"
  let ?s1 = "\<lparr>smallPadding = b1 div 4, mediumPadding = b1 div 2, largePadding = b1,
           buttonHeight = b1 * 2, inputHeight = (3 * b1) div 2, borderRadius = b1 div 4,
           iconSize = b1\<rparr>"
  let ?s2 = "\<lparr>smallPadding = b2 div 4, mediumPadding = b2 div 2, largePadding = b2,
           buttonHeight = b2 * 2, inputHeight = (3 * b2) div 2, borderRadius = b2 div 4,
           iconSize = b2\<rparr>"
  have e1: "main_scaling b1 = Inr ?s1"
    using assms r by (intro main_scaling_nonneg) simp_all
  have e2: "main_scaling b2 = Inr ?s2"
    using assms r by (intro main_scaling_nonneg) simp_all
  have "smallPadding ?s1 \<le> smallPadding ?s2 \<and> mediumPadding ?s1 \<le> mediumPadding ?s2 \<and>
      largePadding ?s1 \<le> largePadding ?s2 \<and> buttonHeight ?s1 \<le> buttonHeight ?s2 \<and>
      inputHeight ?s1 \<le> inputHeight ?s2 \<and> borderRadius ?s1 \<le> borderRadius ?s2 \<and>
      iconSize ?s1 \<le> iconSize ?s2"
    unfolding main_sizes.simps
    using assms mono_facts [of b1 b2]
    by (intro conjI) (assumption, assumption, simp, simp, assumption, assumption, simp)
  with e1 e2 show "\<exists>s1 s2. main_scaling b1 = Inr s1 \<and> main_scaling b2 = Inr s2 \<and>
      smallPadding s1 \<le> smallPadding s2 \<and> mediumPadding s1 \<le> mediumPadding s2 \<and>
      largePadding s1 \<le> largePadding s2 \<and> buttonHeight s1 \<le> buttonHeight s2 \<and>
      inputHeight s1 \<le> inputHeight s2 \<and> borderRadius s1 \<le> borderRadius s2 \<and>
      iconSize s1 \<le> iconSize s2"
    by blast
qed

theorem scaling_monotone_witness:
  "(0::int) < 16 \<and> (16::int) < 18 \<and> (18::int) \<le> 429496729 \<and>
   (\<exists>d1 d2. em_scaling 16 = Inr d1 \<and> em_scaling 18 = Inr d2 \<and>
      paddingVertical d1 \<le> paddingVertical d2 \<and>
      paddingHorizontal d1 \<le> paddingHorizontal d2 \<and>
      minWidth d1 \<le> minWidth d2) \<and>
   (\<exists>s1 s2. main_scaling 16 = Inr s1 \<and> main_scaling 18 = Inr s2 \<and>
      smallPadding s1 \<le> smallPadding s2 \<and>
      mediumPadding s1 \<le> mediumPadding s2 \<and>
      largePadding s1 \<le> largePadding s2 \<and>
      buttonHeight s1 \<le> buttonHeight s2 \<and>
      inputHeight s1 \<le> inputHeight s2 \<and>
      borderRadius s1 \<le> borderRadius s2 \<and>
      iconSize s1 \<le> iconSize s2)"
  using scaling_monotone [of 16 18] by simp

text \<open>
  A positive base whose double does not fit in an \<^verbatim>\<open>int\<close>, and one whose
  fivefold does not: the multiplication overflows and no size is defined.
\<close>

theorem scaling_overflow_at_large_base:
  "(0::int) < 1073741824 \<and> (1073741824::int) \<le> INT_MAX \<and>
   main_scaling 1073741824 = Inl SignedOverflow \<and>
   (0::int) < 429496730 \<and> (429496730::int) \<le> INT_MAX \<and>
   em_scaling 429496730 = Inl SignedOverflow"
  by (simp add: eval_defs)

text \<open>
  C8, as the code has it: for every positive base whose products fit in an
  \<^verbatim>\<open>int\<close> (up to 429496729 for the snippet that multiplies by 5, up to 1073741823
  for \<^verbatim>\<open>main\<close>) all sizes are computed and none of them is negative.
\<close>

theorem sizes_nonnegative:
  assumes "0 < em"
  shows "(em \<le> 429496729 \<longrightarrow>
            (\<exists>d. em_scaling em = Inr d \<and>
               0 \<le> paddingVertical d \<and> 0 \<le> paddingHorizontal d \<and> 0 \<le> minWidth d)) \<and>
         (em \<le> 1073741823 \<longrightarrow>
            (\<exists>s. main_scaling em = Inr s \<and>
               0 \<le> smallPadding s \<and> 0 \<le> mediumPadding s \<and> 0 \<le> largePadding s \<and>
               0 \<le> buttonHeight s \<and> 0 \<le> inputHeight s \<and> 0 \<le> borderRadius s \<and>
               0 \<le> iconSize s))"
proof (intro conjI impI)
  assume r: "em \<le> 429496729"
  let ?d = "\<lparr>paddingVertical = em div 4, paddingHorizontal = em div 2, minWidth = em * 5\<rparr>"
  have e: "em_scaling em = Inr ?d"
    using assms r by (intro em_scaling_nonneg) simp_all
  have "0 \<le> paddingVertical ?d \<and> 0 \<le> paddingHorizontal ?d \<and> 0 \<le> minWidth ?d"
    using assms by simp
  with e show "\<exists>d. em_scaling em = Inr d \<and>
      0 \<le> paddingVertical d \<and> 0 \<le> paddingHorizontal d \<and> 0 \<le> minWidth d"
    by blast
next
  assume r: "em \<le> 1073741823"
  let ?s = "\<lparr>smallPadding = em div 4, mediumPadding = em div 2, largePadding = em,
      buttonHeight = em * 2, inputHeight = (3 * em) div 2, borderRadius = em div 4,
      iconSize = em\<rparr>"
  have e: "main_scaling em = Inr ?s"
    using assms r by (intro main_scaling_nonneg) simp_all
  have "0 \<le> smallPadding ?s \<and> 0 \<le> mediumPadding ?s \<and> 0 \<le> largePadding ?s \<and>
      0 \<le> buttonHeight ?s \<and> 0 \<le> inputHeight ?s \<and> 0 \<le> borderRadius ?s \<and>
      0 \<le> iconSize ?s"
    using assms by simp
  with e show "\<exists>s. main_scaling em = Inr s \<and>
      0 \<le> smallPadding s \<and> 0 \<le> mediumPadding s \<and> 0 \<le> largePadding s \<and>
      0 \<le> buttonHeight s \<and> 0 \<le> inputHeight s \<and> 0 \<le> borderRadius s \<and>
      0 \<le> iconSize s"
    by blast
qed

theorem sizes_nonnegative_witness:
  "(0::int) < 13 \<and> (13::int) \<le> 429496729 \<and>
   (\<exists>d. em_scaling 13 = Inr d \<and>
      0 \<le> paddingVertical d \<and> 0 \<le> paddingHorizontal d \<and> 0 \<le> minWidth d) \<and>
   (\<exists>s. main_scaling 13 = Inr s \<and>
      0 \<le> smallPadding s \<and> 0 \<le> mediumPadding s \<and> 0 \<le> largePadding s \<and>
      0 \<le> buttonHeight s \<and> 0 \<le> inputHeight s \<and> 0 \<le> borderRadius s \<and>
      0 \<le> iconSize s)"
  using sizes_nonnegative [of 13] by simp

section \<open>The sizes at the bases of the examples\<close>

text \<open>
  C5: at base 16 the quarter is 4, the half 8, the double 32, one and a half times 24
  and five times 80.
\<close>

theorem sizes_at_16:
  "main_scaling 16 =
     Inr \<lparr>smallPadding = 4, mediumPadding = 8, largePadding = 16, buttonHeight = 32,
          inputHeight = 24, borderRadius = 4, iconSize = 16\<rparr> \<and>
   em_scaling 16 = Inr \<lparr>paddingVertical = 4, paddingHorizontal = 8, minWidth = 80\<rparr>"
  by (simp add: eval_defs)

text \<open>
  C6: at base 32 the quarter is 8, the half 16, the double 64, one and a half times 48
  and five times 160; each size is twice the size at base 16.
\<close>

theorem sizes_at_32:
  "main_scaling 32 =
     Inr \<lparr>smallPadding = 8, mediumPadding = 16, largePadding = 32, buttonHeight = 64,
          inputHeight = 48, borderRadius = 8, iconSize = 32\<rparr> \<and>
   em_scaling 32 = Inr \<lparr>paddingVertical = 8, paddingHorizontal = 16, minWidth = 160\<rparr> \<and>
   main_scaling 32 =
     map_sum id (\<lambda>s. \<lparr>smallPadding = 2 * smallPadding s, mediumPadding = 2 * mediumPadding s,
                       largePadding = 2 * largePadding s, buttonHeight = 2 * buttonHeight s,
                       inputHeight = 2 * inputHeight s, borderRadius = 2 * borderRadius s,
                       iconSize = 2 * iconSize s\<rparr>) (main_scaling 16) \<and>
   em_scaling 32 =
     map_sum id (\<lambda>d. \<lparr>paddingVertical = 2 * paddingVertical d,
                       paddingHorizontal = 2 * paddingHorizontal d,
                       minWidth = 2 * minWidth d\<rparr>) (em_scaling 16)"
  by (simp add: eval_defs)

text \<open>
  C7: at base 20 the quarter is 5, the half 10, the double 40, one and a half times 30
  and five times 100.
\<close>

theorem sizes_at_20:
  "main_scaling 20 =
     Inr \<lparr>smallPadding = 5, mediumPadding = 10, largePadding = 20, buttonHeight = 40,
          inputHeight = 30, borderRadius = 5, iconSize = 20\<rparr> \<and>
   em_scaling 20 = Inr \<lparr>paddingVertical = 5, paddingHorizontal = 10, minWidth = 100\<rparr>"
  by (simp add: eval_defs)

section \<open>The form\<close>

text \<open>
  A trimmed string is empty exactly when the string consists of whitespace only.
\<close>

lemma dropWhile_all_Nil:
  assumes "list_all P (dropWhile P xs)"
  shows "dropWhile P xs = []"
proof (rule ccontr)
  assume ne: "dropWhile P xs \<noteq> []"
  then have "\<not> P (hd (dropWhile P xs))" by (rule hd_dropWhile)
  moreover have "hd (dropWhile P xs) \<in> set (dropWhile P xs)" using ne by (rule hd_in_set)
  ultimately show False using assms by (simp add: list_all_iff)
qed

lemma trimmed_Nil_iff: "trimmed s = [] \<longleftrightarrow> list_all isSpace s"
proof
  assume "trimmed s = []"
  then have "dropWhile isSpace (rev (dropWhile isSpace s)) = []"
    by (simp add: trimmed_def)
  then have "\<forall>c \<in> set (rev (dropWhile isSpace s)). isSpace c"
    by (simp only: dropWhile_eq_Nil_conv)
  then have "list_all isSpace (dropWhile isSpace s)"
    by (simp add: list_all_iff)
  then have "dropWhile isSpace s = []" by (rule dropWhile_all_Nil)
  then have "\<forall>c \<in> set s. isSpace c" by (simp only: dropWhile_eq_Nil_conv)
  then show "list_all isSpace s" by (simp add: list_all_iff)
next
  assume "list_all isSpace s"
  then have "\<forall>c \<in> set s. isSpace c" by (simp add: list_all_iff)
  then have d: "dropWhile isSpace s = []" by (simp only: dropWhile_eq_Nil_conv)
  show "trimmed s = []" unfolding trimmed_def d by simp
qed

text \<open>
  The format of the status line has the two markers \<^verbatim>\<open>%1\<close> and \<^verbatim>\<open>%2\<close>;
  the arguments take their places, whatever the arguments contain.
\<close>

lemma multiArg_submitted:
  "multiArg (fromAscii ''Submitted: %1 <%2>'') [name, email] =
     fromAscii ''Submitted: '' @ name @ fromAscii '' <'' @ email @ fromAscii ''>''"
  by (simp add: multiArg_def placeholderNumbers_def fromAscii_def getEscape_def digit_of_def)

lemma submitted_not_warning:
  "fromAscii ''Submitted: '' @ rest \<noteq> warningText"
  by (simp add: fromAscii_def warningText_def)

lemma onSubmit_label:
  "lb_text (m_statusLabel (onSubmit w)) =
     (if trimmed (le_text (m_nameEdit w)) = [] \<or> trimmed (le_text (m_emailEdit w)) = []
      then warningText
      else fromAscii ''Submitted: '' @ trimmed (le_text (m_nameEdit w)) @ fromAscii '' <'' @
           trimmed (le_text (m_emailEdit w)) @ fromAscii ''>'')"
  unfolding onSubmit_def Let_def isEmpty_def multiArg_submitted QLabel_setText_def
  by simp

text \<open>
  C9: after \<^verbatim>\<open>onSubmit\<close> the status label shows the warning, that is the
  warning sign U+26A0 followed by \<^verbatim>\<open> Please fill in all fields.\<close>, if and only if
  the trimmed name or the trimmed email is empty; otherwise it shows
  \<^verbatim>\<open>Submitted: \<close>, the trimmed name, a space and the trimmed email in angle
  brackets. A trimmed text is empty exactly when the text is empty or whitespace only.
\<close>

theorem onSubmit_status:
  "(lb_text (m_statusLabel (onSubmit w)) = 0x26A0 # fromAscii '' Please fill in all fields.'' \<longleftrightarrow>
      trimmed (le_text (m_nameEdit w)) = [] \<or> trimmed (le_text (m_emailEdit w)) = []) \<and>
   (\<not> (trimmed (le_text (m_nameEdit w)) = [] \<or> trimmed (le_text (m_emailEdit w)) = []) \<longrightarrow>
      lb_text (m_statusLabel (onSubmit w)) =
        fromAscii ''Submitted: '' @ trimmed (le_text (m_nameEdit w)) @ fromAscii '' <'' @
        trimmed (le_text (m_emailEdit w)) @ fromAscii ''>'') \<and>
   (trimmed (le_text (m_nameEdit w)) = [] \<longleftrightarrow> list_all isSpace (le_text (m_nameEdit w))) \<and>
   (trimmed (le_text (m_emailEdit w)) = [] \<longleftrightarrow> list_all isSpace (le_text (m_emailEdit w)))"
proof (intro conjI)
  show "lb_text (m_statusLabel (onSubmit w)) = 0x26A0 # fromAscii '' Please fill in all fields.'' \<longleftrightarrow>
      trimmed (le_text (m_nameEdit w)) = [] \<or> trimmed (le_text (m_emailEdit w)) = []"
    unfolding onSubmit_label using submitted_not_warning
    by (simp add: warningText_def del: append_assoc)
  show "\<not> (trimmed (le_text (m_nameEdit w)) = [] \<or> trimmed (le_text (m_emailEdit w)) = []) \<longrightarrow>
      lb_text (m_statusLabel (onSubmit w)) =
        fromAscii ''Submitted: '' @ trimmed (le_text (m_nameEdit w)) @ fromAscii '' <'' @
        trimmed (le_text (m_emailEdit w)) @ fromAscii ''>''"
    unfolding onSubmit_label by simp
  show "trimmed (le_text (m_nameEdit w)) = [] \<longleftrightarrow> list_all isSpace (le_text (m_nameEdit w))"
    by (rule trimmed_Nil_iff)
  show "trimmed (le_text (m_emailEdit w)) = [] \<longleftrightarrow> list_all isSpace (le_text (m_emailEdit w))"
    by (rule trimmed_Nil_iff)
qed

lemma trimmed_ann: "trimmed (fromAscii ''  Ann Lee '') = fromAscii ''Ann Lee''"
  by (simp add: trimmed_def fromAscii_def isSpace_def)

lemma trimmed_mail: "trimmed (fromAscii ''ann@example.org  '') = fromAscii ''ann@example.org''"
  by (simp add: trimmed_def fromAscii_def isSpace_def)

lemma trimmed_blank: "trimmed (fromAscii ''   '') = []"
  by (simp add: trimmed_def fromAscii_def isSpace_def)

theorem onSubmit_status_witness:
  "lb_text (m_statusLabel (onSubmit
      (MainWindow_new\<lparr>m_nameEdit := \<lparr>le_text = fromAscii ''  Ann Lee ''\<rparr>,
                       m_emailEdit := \<lparr>le_text = fromAscii ''ann@example.org  ''\<rparr>\<rparr>))) =
     [0x53, 0x75, 0x62, 0x6D, 0x69, 0x74, 0x74, 0x65, 0x64, 0x3A, 0x20, 0x41, 0x6E,
      0x6E, 0x20, 0x4C, 0x65, 0x65, 0x20, 0x3C, 0x61, 0x6E, 0x6E, 0x40, 0x65, 0x78,
      0x61, 0x6D, 0x70, 0x6C, 0x65, 0x2E, 0x6F, 0x72, 0x67, 0x3E] \<and>
   lb_text (m_statusLabel (onSubmit
      (MainWindow_new\<lparr>m_nameEdit := \<lparr>le_text = fromAscii ''   ''\<rparr>,
                       m_emailEdit := \<lparr>le_text = fromAscii ''ann@example.org  ''\<rparr>\<rparr>))) =
     [0x26A0, 0x20, 0x50, 0x6C, 0x65, 0x61, 0x73, 0x65, 0x20, 0x66, 0x69, 0x6C, 0x6C,
      0x20, 0x69, 0x6E, 0x20, 0x61, 0x6C, 0x6C, 0x20, 0x66, 0x69, 0x65, 0x6C, 0x64,
      0x73, 0x2E]"
proof -
  let ?w1 = "MainWindow_new\<lparr>m_nameEdit := \<lparr>le_text = fromAscii ''  Ann Lee ''\<rparr>,
                       m_emailEdit := \<lparr>le_text = fromAscii ''ann@example.org  ''\<rparr>\<rparr>"
  let ?w2 = "MainWindow_new\<lparr>m_nameEdit := \<lparr>le_text = fromAscii ''   ''\<rparr>,
                       m_emailEdit := \<lparr>le_text = fromAscii ''ann@example.org  ''\<rparr>\<rparr>"
  have n1: "trimmed (le_text (m_nameEdit ?w1)) = fromAscii ''Ann Lee''"
    by (simp add: trimmed_ann)
  have e1: "trimmed (le_text (m_emailEdit ?w1)) = fromAscii ''ann@example.org''"
    by (simp add: trimmed_mail)
  have n2: "trimmed (le_text (m_nameEdit ?w2)) = []"
    by (simp add: trimmed_blank)
  have ne: "fromAscii ''Ann Lee'' \<noteq> []" "fromAscii ''ann@example.org'' \<noteq> []"
    by (simp_all add: fromAscii_def)
  have "lb_text (m_statusLabel (onSubmit ?w1)) =
      fromAscii ''Submitted: '' @ fromAscii ''Ann Lee'' @ fromAscii '' <'' @
      fromAscii ''ann@example.org'' @ fromAscii ''>''"
    using onSubmit_status [of ?w1, THEN conjunct2, THEN conjunct1] ne
    unfolding n1 e1 by blast
  then have a: "lb_text (m_statusLabel (onSubmit ?w1)) =
     [0x53, 0x75, 0x62, 0x6D, 0x69, 0x74, 0x74, 0x65, 0x64, 0x3A, 0x20, 0x41, 0x6E,
      0x6E, 0x20, 0x4C, 0x65, 0x65, 0x20, 0x3C, 0x61, 0x6E, 0x6E, 0x40, 0x65, 0x78,
      0x61, 0x6D, 0x70, 0x6C, 0x65, 0x2E, 0x6F, 0x72, 0x67, 0x3E]"
    by (simp add: fromAscii_def)
  have "lb_text (m_statusLabel (onSubmit ?w2)) = 0x26A0 # fromAscii '' Please fill in all fields.''"
    using onSubmit_status [of ?w2, THEN conjunct1] unfolding n2 by blast
  then have b: "lb_text (m_statusLabel (onSubmit ?w2)) =
     [0x26A0, 0x20, 0x50, 0x6C, 0x65, 0x61, 0x73, 0x65, 0x20, 0x66, 0x69, 0x6C, 0x6C,
      0x20, 0x69, 0x6E, 0x20, 0x61, 0x6C, 0x6C, 0x20, 0x66, 0x69, 0x65, 0x6C, 0x64,
      0x73, 0x2E]"
    by (simp add: fromAscii_def)
  from a b show ?thesis by (rule conjI)
qed

text \<open>
  C10: the Clear button empties the text of the name edit, of the email edit and of the
  status label. The label's alignment, the window's title and its size stay as they
  were, and putting the three widgets back gives the window from before the click:
  nothing else has changed.
\<close>

theorem clear_clicked_frame:
  "le_text (m_nameEdit (clearClicked w)) = [] \<and>
   le_text (m_emailEdit (clearClicked w)) = [] \<and>
   lb_text (m_statusLabel (clearClicked w)) = [] \<and>
   lb_alignment (m_statusLabel (clearClicked w)) = lb_alignment (m_statusLabel w) \<and>
   windowTitle (clearClicked w) = windowTitle w \<and>
   windowWidth (clearClicked w) = windowWidth w \<and>
   windowHeight (clearClicked w) = windowHeight w \<and>
   (clearClicked w)\<lparr>m_nameEdit := m_nameEdit w, m_emailEdit := m_emailEdit w,
                     m_statusLabel := m_statusLabel w\<rparr> = w"
  by (simp add: clearClicked_def QLineEdit_clear_def QLabel_clear_def Let_def)

end
